theory Spec2Isabelle
  imports Main "HOL-Library.Word" "HOL-Library.AList"
begin

section \<open>Object extraction operators of ilastik: a shallow embedding\<close>

text \<open>
  The operators of \<^verbatim>\<open>ilastik/applets/objectExtraction/opObjectExtraction.py\<close> are
  embedded as functions over explicit operator records. Every \<^verbatim>\<open>assert\<close>, every
  failing index and every failing dictionary access of the Python source is a branch that
  returns \<open>Inl\<close> of the exception raised.
\<close>

subsection \<open>Exceptions\<close>

datatype error =
    AssertionError
  | IndexError
  | KeyError
  | ValueError
  | ZeroDivisionError
  | RuntimeError

definition bind_err :: "error + 'a \<Rightarrow> ('a \<Rightarrow> error + 'b) \<Rightarrow> error + 'b" where
  "bind_err m f = (case m of Inl e \<Rightarrow> Inl e | Inr x \<Rightarrow> f x)"

text \<open>A \<^verbatim>\<open>for\<close> loop whose body may raise: the first exception leaves the loop.\<close>

fun for_each :: "('x \<Rightarrow> 's \<Rightarrow> error + 's) \<Rightarrow> 'x list \<Rightarrow> 's \<Rightarrow> error + 's" where
  "for_each body [] s = Inr s"
| "for_each body (x # xs) s =
     (case body x s of Inl e \<Rightarrow> Inl e | Inr s' \<Rightarrow> for_each body xs s')"

subsection \<open>Python lists and ordered dictionaries\<close>

text \<open>\<^verbatim>\<open>xs[i]\<close> on a Python list: a negative index counts from the end.\<close>

definition py_index :: "'a list \<Rightarrow> int \<Rightarrow> error + 'a" where
  "py_index xs i =
     (if 0 \<le> i
      then (if i < int (length xs) then Inr (xs ! nat i) else Inl IndexError)
      else (if - int (length xs) \<le> i then Inr (xs ! nat (int (length xs) + i))
            else Inl IndexError))"

text \<open>
  \<^verbatim>\<open>collections.OrderedDict\<close> is an association list with distinct keys in insertion
  order: assigning an existing key keeps its position, a new key goes to the end.
\<close>

type_synonym ('k, 'v) ordered_dict = "('k \<times> 'v) list"

definition OrderedDict :: "('k \<times> 'v) list \<Rightarrow> ('k, 'v) ordered_dict" where
  "OrderedDict kvs = foldl (\<lambda>d (k, v). AList.update k v d) [] kvs"

definition keys :: "('k, 'v) ordered_dict \<Rightarrow> 'k list" where
  "keys d = map fst d"

definition values_od :: "('k, 'v) ordered_dict \<Rightarrow> 'v list" where
  "values_od d = map snd d"

definition od_get :: "('k, 'v) ordered_dict \<Rightarrow> 'k \<Rightarrow> error + 'v" where
  "od_get d k = (case map_of d k of None \<Rightarrow> Inl KeyError | Some v \<Rightarrow> Inr v)"

definition od_del :: "('k, 'v) ordered_dict \<Rightarrow> 'k \<Rightarrow> error + ('k, 'v) ordered_dict" where
  "od_del d k = (if k \<in> set (keys d) then Inr (AList.delete k d) else Inl KeyError)"

text \<open>\<^verbatim>\<open>xs.index(x)\<close>: the first position of \<open>x\<close>, \<^verbatim>\<open>ValueError\<close> when absent.\<close>

fun list_index :: "'a list \<Rightarrow> 'a \<Rightarrow> error + nat" where
  "list_index [] x = Inl ValueError"
| "list_index (y # ys) x =
     (if y = x then Inr 0 else (case list_index ys x of Inl e \<Rightarrow> Inl e | Inr i \<Rightarrow> Inr (Suc i)))"

subsection \<open>numpy arrays\<close>

text \<open>
  An n-dimensional array is its shape and its cells, read by coordinate. Only the cells at
  coordinates inside the shape belong to the array.
\<close>

record 'a ndarray =
  shape :: "nat list"
  cell :: "nat list \<Rightarrow> 'a"

text \<open>numpy's index check along one axis of extent \<open>n\<close>: \<open>-n \<le> i < n\<close>, negative wraps.\<close>

definition norm_index :: "nat \<Rightarrow> int \<Rightarrow> nat option" where
  "norm_index n i =
     (if 0 \<le> i \<and> i < int n then Some (nat i)
      else if - int n \<le> i \<and> i < 0 then Some (nat (i + int n))
      else None)"

fun norm_key :: "nat list \<Rightarrow> int list \<Rightarrow> nat list option" where
  "norm_key ns [] = Some []"
| "norm_key [] (i # is) = None"
| "norm_key (n # ns) (i # is) =
     (case norm_index n i of
        None \<Rightarrow> None
      | Some k \<Rightarrow> (case norm_key ns is of None \<Rightarrow> None | Some ks \<Rightarrow> Some (k # ks)))"

text \<open>
  \<^verbatim>\<open>a[key] = v\<close> with a tuple of integers: \<^verbatim>\<open>IndexError\<close> when the tuple is longer than
  the array has axes or an index is out of range; a shorter tuple assigns \<open>v\<close> to every
  cell below the addressed prefix.
\<close>

definition setitem :: "'a ndarray \<Rightarrow> int list \<Rightarrow> 'a \<Rightarrow> error + 'a ndarray" where
  "setitem a key v =
     (case norm_key (shape a) key of
        None \<Rightarrow> Inl IndexError
      | Some k \<Rightarrow> Inr (a\<lparr>cell := (\<lambda>p. if take (length k) p = k then v else cell a p)\<rparr>))"

text \<open>\<^verbatim>\<open>a[key]\<close> for a tuple that addresses one element (as many indices as axes).\<close>

definition getitem :: "'a ndarray \<Rightarrow> int list \<Rightarrow> error + 'a" where
  "getitem a key =
     (if length key = length (shape a)
      then (case norm_key (shape a) key of None \<Rightarrow> Inl IndexError | Some k \<Rightarrow> Inr (cell a k))
      else Inl IndexError)"

text \<open>\<^verbatim>\<open>a[:] = v\<close>: every cell; a 0-dimensional array cannot be sliced.\<close>

definition fill :: "'a ndarray \<Rightarrow> 'a \<Rightarrow> error + 'a ndarray" where
  "fill a v = (if shape a = [] then Inl IndexError else Inr (a\<lparr>cell := (\<lambda>p. v)\<rparr>))"

text \<open>\<^verbatim>\<open>a.flat[0]\<close>: the first element in C order, \<^verbatim>\<open>IndexError\<close> on an empty array.\<close>

definition flat0 :: "'a ndarray \<Rightarrow> error + 'a" where
  "flat0 a =
     (if prod_list (shape a) = 0 then Inl IndexError
      else Inr (cell a (replicate (length (shape a)) 0)))"

text \<open>
  \<^verbatim>\<open>numpy.split(a, sections, axis)\<close> with an integer \<open>sections\<close>: the extent along
  \<open>axis\<close> must divide evenly; piece \<open>i\<close> holds the \<open>i\<close>-th run of that axis.
\<close>

definition numpy_split :: "'a ndarray \<Rightarrow> nat \<Rightarrow> nat \<Rightarrow> error + 'a ndarray list" where
  "numpy_split a sections axis =
     (if length (shape a) \<le> axis then Inl IndexError
      else if sections = 0 then Inl ZeroDivisionError
      else if shape a ! axis mod sections = 0
      then (let w = shape a ! axis div sections in
            Inr (map (\<lambda>i. \<lparr>shape = (shape a)[axis := w],
                           cell = (\<lambda>k. cell a (k[axis := k ! axis + i * w]))\<rparr>)
                     [0..<sections]))
      else Inl ValueError)"

text \<open>Two arrays hold the same data: same shape, same element under every index tuple.\<close>

definition array_equal :: "'a ndarray \<Rightarrow> 'a ndarray \<Rightarrow> bool" where
  "array_equal a b = (shape a = shape b \<and> (\<forall>key. getitem a key = getitem b key))"

text \<open>
  Two outcomes of an operation agree: the same exception, or arrays holding the same data.
\<close>

definition same_outcome :: "error + 'a ndarray \<Rightarrow> error + 'a ndarray \<Rightarrow> bool" where
  "same_outcome r1 r2 =
     (case r1 of
        Inl e1 \<Rightarrow> (case r2 of Inl e2 \<Rightarrow> e1 = e2 | Inr b \<Rightarrow> False)
      | Inr a \<Rightarrow> (case r2 of Inl e2 \<Rightarrow> False | Inr b \<Rightarrow> array_equal a b))"

subsection \<open>Slots, metadata and regions of interest\<close>

text \<open>Axis tags are the sequence of axis keys (\<open>t\<close>, \<open>x\<close>, \<open>y\<close>, \<open>z\<close>, \<open>c\<close>).\<close>

record metadata =
  mshape :: "nat list"
  axistags :: string

text \<open>
  Modelled from the spec: \<^verbatim>\<open>meta.getTaggedShape()\<close> of the dataflow framework (not part of
  the sources) is the ordered list of axis tag and extent pairs.
\<close>

definition getTaggedShape :: "metadata \<Rightarrow> (char, nat) ordered_dict" where
  "getTaggedShape m = OrderedDict (zip (axistags m) (mshape m))"

text \<open>A box region of interest: start and stop coordinate vectors.\<close>

record roi =
  start :: "int list"
  stop :: "int list"

text \<open>A slot that is connected upstream: its published metadata and the data behind it.\<close>

record 'a slot =
  meta :: metadata
  content :: "nat list \<Rightarrow> 'a"

datatype slot_id =
    SlotRawVolume
  | SlotLabelVolume
  | SlotRawImage
  | SlotLabelImage
  | SlotInput
  | SlotBinaryImage
  | SlotRegionCenters
  | SlotBackgroundLabels
  | SlotOutput
  | SlotLabelImageOut
  | SlotObjectCenterImage
  | SlotRegionFeatures

text \<open>
  Modelled from the spec: a request on a slot of the dataflow framework (not part of the
  sources) produces exactly the sub-array covering the region of interest, whose start
  must not exceed its stop and which must lie inside the slot's shape.
\<close>

definition roi_in_shape :: "nat list \<Rightarrow> int list \<Rightarrow> int list \<Rightarrow> bool" where
  "roi_in_shape shp st sp =
     (length st = length shp \<and> length sp = length shp \<and>
      list_all2 (\<lambda>a b. 0 \<le> a \<and> a \<le> b) st sp \<and> list_all2 (\<lambda>b n. b \<le> int n) sp shp)"

definition slot_request :: "'a slot \<Rightarrow> int list \<Rightarrow> int list \<Rightarrow> error + 'a ndarray" where
  "slot_request s st sp =
     (if roi_in_shape (mshape (meta s)) st sp
      then Inr \<lparr>shape = map nat (map2 (-) sp st),
                cell = (\<lambda>k. content s (map2 (+) k (map nat st)))\<rparr>
      else Inl ValueError)"

text \<open>\<^verbatim>\<open>slot[:]\<close>: the request for the slot's whole extent.\<close>

definition slot_all :: "'a slot \<Rightarrow> error + 'a ndarray" where
  "slot_all s =
     slot_request s (replicate (length (mshape (meta s))) 0) (map int (mshape (meta s)))"

text \<open>
  \<^verbatim>\<open>a.withAxes(*keep)\<close> of vigra, after the array was given the axis tags \<open>tags\<close>: the
  tags must fit the array's dimension, a dropped axis must have extent one, the kept axes
  stay in order.
\<close>

fun embed_axes :: "string \<Rightarrow> string \<Rightarrow> nat list \<Rightarrow> nat list" where
  "embed_axes [] keep ks = []"
| "embed_axes (a # as) keep ks =
     (if a \<in> set keep
      then (case ks of [] \<Rightarrow> [] | k # ks' \<Rightarrow> k # embed_axes as keep ks')
      else 0 # embed_axes as keep ks)"

definition withAxes :: "'a ndarray \<Rightarrow> string \<Rightarrow> string \<Rightarrow> error + 'a ndarray" where
  "withAxes a tags keep =
     (if length tags = length (shape a)
      then (if list_all (\<lambda>(k, n). k \<in> set keep \<or> n = 1) (zip tags (shape a))
            then Inr \<lparr>shape = map snd (filter (\<lambda>(k, n). k \<in> set keep) (zip tags (shape a))),
                      cell = (\<lambda>ks. cell a (embed_axes tags keep ks))\<rparr>
            else Inl RuntimeError)
      else Inl RuntimeError)"

subsection \<open>OpRegionFeatures3d\<close>

text \<open>
  An output slot: the metadata its operator published and the regions it was notified
  dirty over, oldest first. \<^verbatim>\<open>slot.setDirty(start, stop)\<close> adds a box;
  \<^verbatim>\<open>slot.setDirty(slice(None))\<close> adds the box of the slot's whole extent.
\<close>

record out_slot =
  ometa :: metadata
  dirty :: "roi list"

definition setDirty :: "out_slot \<Rightarrow> int list \<Rightarrow> int list \<Rightarrow> out_slot" where
  "setDirty s st sp = s\<lparr>dirty := dirty s @ [\<lparr>start = st, stop = sp\<rparr>]\<rparr>"

definition setDirty_everything :: "out_slot \<Rightarrow> out_slot" where
  "setDirty_everything s =
     setDirty s (replicate (length (mshape (ometa s))) 0) (map int (mshape (ometa s)))"

record ('v, 'l) OpRegionFeatures3d =
  featureNames :: "string list"
  RawVolume :: "'v slot"
  LabelVolume :: "'l slot"
  Output :: out_slot

definition OpRegionFeatures3d_setupOutputs ::
  "('v, 'l) OpRegionFeatures3d \<Rightarrow> error + ('v, 'l) OpRegionFeatures3d" where
  "OpRegionFeatures3d_setupOutputs self =
     (if mshape (meta (LabelVolume self)) = mshape (meta (RawVolume self))
      then (if axistags (meta (LabelVolume self)) = axistags (meta (RawVolume self))
      then (let taggedOutputShape = getTaggedShape (meta (LabelVolume self)) in
        if CHR ''t'' \<in> set (keys taggedOutputShape) \<and>
           od_get taggedOutputShape CHR ''t'' \<noteq> Inr 1 then Inl AssertionError
        else if CHR ''c'' \<in> set (keys taggedOutputShape) \<and>
           od_get taggedOutputShape CHR ''c'' \<noteq> Inr 1 then Inl AssertionError
        else if set (keys taggedOutputShape) - set ''tc'' = set ''xyz''
        then bind_err (od_del taggedOutputShape CHR ''x'') (\<lambda>d1.
             bind_err (od_del d1 CHR ''y'') (\<lambda>d2.
             bind_err (od_del d2 CHR ''z'') (\<lambda>d3.
             Inr (self\<lparr>Output := (Output self)
                    \<lparr>ometa := \<lparr>mshape = values_od d3, axistags = keys d3\<rparr>\<rparr>\<rparr>))))
        else Inl AssertionError)
      else Inl AssertionError)
      else Inl AssertionError)"

text \<open>
  \<^verbatim>\<open>_extract\<close> hands the 3d image and labels, the feature names and
  \<^verbatim>\<open>ignoreLabel=0\<close> to vigra's \<^verbatim>\<open>extractRegionFeatures\<close>, which is a parameter of
  the model (the conversions to float32 and uint32 are part of it).
\<close>

definition OpRegionFeatures3d_extract ::
  "('v ndarray \<Rightarrow> 'l ndarray \<Rightarrow> string list \<Rightarrow> nat \<Rightarrow> error + 'f) \<Rightarrow>
   ('v, 'l) OpRegionFeatures3d \<Rightarrow> 'v ndarray \<Rightarrow> 'l ndarray \<Rightarrow> error + 'f" where
  "OpRegionFeatures3d_extract extractRegionFeatures self image3d labels =
     extractRegionFeatures image3d labels (featureNames self) 0"

definition OpRegionFeatures3d_execute ::
  "('v ndarray \<Rightarrow> 'l ndarray \<Rightarrow> string list \<Rightarrow> nat \<Rightarrow> error + 'f) \<Rightarrow>
   ('v, 'l) OpRegionFeatures3d \<Rightarrow> slot_id \<Rightarrow> nat list \<Rightarrow> roi \<Rightarrow> 'f ndarray \<Rightarrow>
   error + 'f ndarray" where
  "OpRegionFeatures3d_execute extractRegionFeatures self slot subindex roi result =
     (if length (start roi) = length (stop roi) \<and>
         length (stop roi) = length (mshape (ometa (Output self)))
      then (if slot = SlotOutput
      then bind_err (slot_all (RawVolume self)) (\<lambda>rawVolume.
           bind_err (slot_all (LabelVolume self)) (\<lambda>labelVolume.
           let spatialAxes =
                 filter (\<lambda>k. k \<in> set ''xyz'') (keys (getTaggedShape (meta (RawVolume self))))
           in
           bind_err (withAxes rawVolume (axistags (meta (RawVolume self))) spatialAxes)
             (\<lambda>rawVolume3d.
           bind_err (withAxes labelVolume (axistags (meta (LabelVolume self))) spatialAxes)
             (\<lambda>labelVolume3d.
           if prod_list (map2 (-) (stop roi) (start roi)) = 1
           then bind_err
                  (OpRegionFeatures3d_extract extractRegionFeatures self rawVolume3d labelVolume3d)
                  (\<lambda>acc. setitem result (start roi) acc)
           else Inl AssertionError))))
      else Inl AssertionError)
      else Inl AssertionError)"

text \<open>
  The whole content of a slot, viewed along its spatial axes: the shape keeps the extents
  of the \<open>x\<close>, \<open>y\<close> and \<open>z\<close> axes in their order, and every spatial coordinate reads
  the slot's data at that coordinate, with index 0 on the other axes. It serves to state
  which data reaches the feature extractor.
\<close>

definition entire_volume3d :: "'a slot \<Rightarrow> 'a ndarray" where
  "entire_volume3d s =
     \<lparr>shape = map snd (filter (\<lambda>(k, n). k \<in> set ''xyz'')
                        (zip (axistags (meta s)) (mshape (meta s)))),
      cell = (\<lambda>ks. content s (embed_axes (axistags (meta s)) ''xyz'' ks))\<rparr>"

definition OpRegionFeatures3d_propagateDirty ::
  "('v, 'l) OpRegionFeatures3d \<Rightarrow> slot_id \<Rightarrow> nat list \<Rightarrow> roi \<Rightarrow>
   error + ('v, 'l) OpRegionFeatures3d" where
  "OpRegionFeatures3d_propagateDirty self slot subindex roi =
     (let axes = keys (getTaggedShape (meta (RawVolume self)));
          dirtyStart = OrderedDict (zip axes (start roi));
          dirtyStop = OrderedDict (zip axes (stop roi))
      in
      bind_err (od_del dirtyStart CHR ''x'') (\<lambda>dirtyStart.
      bind_err (od_del dirtyStart CHR ''y'') (\<lambda>dirtyStart.
      bind_err (od_del dirtyStart CHR ''z'') (\<lambda>dirtyStart.
      bind_err (od_del dirtyStop CHR ''x'') (\<lambda>dirtyStop.
      bind_err (od_del dirtyStop CHR ''y'') (\<lambda>dirtyStop.
      bind_err (od_del dirtyStop CHR ''z'') (\<lambda>dirtyStop.
      Inr (self\<lparr>Output :=
             setDirty (Output self) (values_od dirtyStart) (values_od dirtyStop)\<rparr>))))))))"

subsection \<open>Composite operators that only route data\<close>

text \<open>
  \<^verbatim>\<open>OpRegionFeatures\<close>, \<^verbatim>\<open>OpCachedRegionFeatures\<close> and \<^verbatim>\<open>OpObjectExtraction\<close> connect
  inner operators; their own \<^verbatim>\<open>execute\<close> is \<^verbatim>\<open>assert False, "Shouldn't get here."\<close>.
\<close>

definition OpRegionFeatures_execute ::
  "'self \<Rightarrow> slot_id \<Rightarrow> nat list \<Rightarrow> 'r \<Rightarrow> 'a ndarray \<Rightarrow> error + 'a ndarray" where
  "OpRegionFeatures_execute self slot subindex roi destination = Inl AssertionError"

definition OpCachedRegionFeatures_execute ::
  "'self \<Rightarrow> slot_id \<Rightarrow> nat list \<Rightarrow> 'r \<Rightarrow> 'a ndarray \<Rightarrow> error + 'a ndarray" where
  "OpCachedRegionFeatures_execute self slot subindex roi destination = Inl AssertionError"

definition OpObjectExtraction_execute ::
  "'self \<Rightarrow> slot_id \<Rightarrow> nat list \<Rightarrow> 'r \<Rightarrow> 'a ndarray \<Rightarrow> error + 'a ndarray" where
  "OpObjectExtraction_execute self slot subindex roi result = Inl AssertionError"

text \<open>
  The cached pipeline: \<^verbatim>\<open>setupOutputs\<close> checks the two inputs and gives the cache one
  block per element of the inner pipeline's output, whose shape is \<open>inner_shape\<close>.
\<close>

record OpCachedRegionFeatures =
  RawImage :: metadata
  LabelImage :: metadata
  inner_shape :: "nat list"
  blockShape :: "nat list option"

definition OpCachedRegionFeatures_setupOutputs ::
  "OpCachedRegionFeatures \<Rightarrow> error + OpCachedRegionFeatures" where
  "OpCachedRegionFeatures_setupOutputs self =
     (if mshape (LabelImage self) = mshape (RawImage self)
      then (if axistags (LabelImage self) = axistags (RawImage self)
            then Inr (self\<lparr>blockShape := Some (replicate (length (inner_shape self)) 1)\<rparr>)
            else Inl AssertionError)
      else Inl AssertionError)"

subsection \<open>OpAdaptTimeListRoi\<close>

text \<open>
  The region of interest of the output is a list of time indices; the result is a
  dictionary from time index to the list of feature records by channel.
\<close>

record 'f OpAdaptTimeListRoi =
  Input :: "'f slot"

definition OpAdaptTimeListRoi_execute ::
  "'f OpAdaptTimeListRoi \<Rightarrow> slot_id \<Rightarrow> nat list \<Rightarrow> int list \<Rightarrow> error + (int \<rightharpoonup> 'f list)" where
  "OpAdaptTimeListRoi_execute self slot subindex roi =
     (if slot = SlotOutput
      then (let taggedShape = getTaggedShape (meta (Input self)) in
        bind_err (od_get taggedShape CHR ''c'') (\<lambda>numChannels.
        bind_err (list_index (keys taggedShape) CHR ''c'') (\<lambda>channelIndex.
        bind_err (if length roi = 0
                  then bind_err (od_get taggedShape CHR ''t'') (\<lambda>n. Inr (map int [0..<n]))
                  else Inr roi) (\<lambda>roi.
        let taggedShape = AList.update CHR ''t'' 1 taggedShape in
        bind_err (list_index (keys taggedShape) CHR ''t'') (\<lambda>timeIndex.
        for_each (\<lambda>t result.
            let result = result(t \<mapsto> []);
                start = replicate (length taggedShape) 0;
                stop = map int (values_od taggedShape);
                start = start[timeIndex := t];
                stop = stop[timeIndex := 1]
            in
            bind_err (slot_request (Input self) start stop) (\<lambda>a.
            bind_err (numpy_split a numChannels channelIndex) (\<lambda>channelResults.
            for_each (\<lambda>channelResult result.
                bind_err (flat0 channelResult) (\<lambda>r.
                (case result t of
                   None \<Rightarrow> Inl KeyError
                 | Some rs \<Rightarrow> Inr (result(t \<mapsto> rs @ [r])))))
              channelResults result)))
          roi Map.empty)))))
      else Inl AssertionError)"

subsection \<open>OpObjectCenterImage\<close>

text \<open>
  \<^verbatim>\<open>RegionCenters\<close> is requested with a list of time indices and answers with the
  dictionary \<^verbatim>\<open>OpAdaptTimeListRoi\<close> builds: time index to per-channel list of feature
  records (feature name to value).
\<close>

record 'f OpObjectCenterImage =
  BinaryImage :: metadata
  RegionCenters :: "int list \<Rightarrow> error + (int \<rightharpoonup> (string \<rightharpoonup> 'f) list)"
  Output_image :: out_slot

definition OpObjectCenterImage_setupOutputs ::
  "'f OpObjectCenterImage \<Rightarrow> 'f OpObjectCenterImage" where
  "OpObjectCenterImage_setupOutputs self =
     self\<lparr>Output_image := (Output_image self)\<lparr>ometa := BinaryImage self\<rparr>\<rparr>"

text \<open>
  \<^verbatim>\<open>b = b and (roi.start[i] <= coords[i] and coords[i] < roi.stop[i])\<close>: Python reads
  \<^verbatim>\<open>roi.start[i]\<close> only while \<open>b\<close> holds and \<^verbatim>\<open>roi.stop[i]\<close> only when the first
  comparison holds.
\<close>

definition contained_step :: "roi \<Rightarrow> int list \<Rightarrow> nat \<Rightarrow> bool \<Rightarrow> error + bool" where
  "contained_step roi coords i b =
     (if b
      then (if i < length (start roi)
            then (if start roi ! i \<le> coords ! i
                  then (if i < length (stop roi)
                        then Inr (coords ! i < stop roi ! i)
                        else Inl IndexError)
                  else Inr False)
            else Inl IndexError)
      else Inr False)"

definition contained_in_subregion :: "roi \<Rightarrow> int list \<Rightarrow> error + bool" where
  "contained_in_subregion roi coords =
     for_each (contained_step roi coords) [0..<length coords] True"

definition make_key :: "roi \<Rightarrow> int list \<Rightarrow> error + int list" where
  "make_key roi coords =
     (if length (start roi) \<le> length coords
      then Inr (map (\<lambda>i. coords ! i - start roi ! i) [0..<length (start roi)])
      else Inl IndexError)"

text \<open>
  The region centers are converted with \<^verbatim>\<open>numpy.asarray(centers, dtype=numpy.uint32)\<close>,
  a parameter of the model, to a table of rows of 32-bit unsigned values. Adding the Python
  integer offset to such a value gives a signed 64-bit value, so \<open>0 - 1\<close> is \<open>-1\<close>.
\<close>

type_synonym center_table = "32 word list list"

definition table_size :: "center_table \<Rightarrow> nat" where
  "table_size centers = sum_list (map length centers)"

definition paint_offset ::
  "roi \<Rightarrow> int \<Rightarrow> int \<Rightarrow> 32 word \<Rightarrow> 32 word \<Rightarrow> 32 word \<Rightarrow> nat \<Rightarrow> int \<Rightarrow> nat ndarray \<Rightarrow>
   error + nat ndarray" where
  "paint_offset roi t ch x y z dim offset result =
     (let c = [t, uint x, uint y, uint z, ch];
          c = c[dim := c ! dim + offset]
      in
      bind_err (contained_in_subregion roi c) (\<lambda>inside.
      if inside then bind_err (make_key roi c) (\<lambda>key. setitem result key 255)
      else Inr result))"

definition paint_center ::
  "roi \<Rightarrow> int \<Rightarrow> int \<Rightarrow> 32 word list \<Rightarrow> nat ndarray \<Rightarrow> error + nat ndarray" where
  "paint_center roi t ch center result =
     (case take 3 center of
        [x, y, z] \<Rightarrow>
          for_each (\<lambda>dim. for_each (paint_offset roi t ch x y z dim) [- 1, 0, 1])
            [1, 2, 3] result
      | _ \<Rightarrow> Inl ValueError)"

text \<open>
  The variable \<^verbatim>\<open>centers\<close> holds the fetched dictionary when the channel loop starts and
  the converted table of the channel just painted afterwards.
\<close>

datatype 'f centers_var =
    Fetched "int \<rightharpoonup> (string \<rightharpoonup> 'f) list"
  | Table center_table

definition channel_body ::
  "('f \<Rightarrow> center_table) \<Rightarrow> roi \<Rightarrow> int \<Rightarrow> int \<Rightarrow> 'f centers_var \<times> nat ndarray \<Rightarrow>
   error + 'f centers_var \<times> nat ndarray" where
  "channel_body asarray_uint32 roi t ch state =
     (case state of (centers, result) \<Rightarrow>
       (case centers of
          Table rows \<Rightarrow> Inl IndexError
        | Fetched d \<Rightarrow>
           (case d t of
              None \<Rightarrow> Inl KeyError
            | Some by_channel \<Rightarrow>
               bind_err (py_index by_channel ch) (\<lambda>features.
               (case features ''RegionCenter'' of
                  None \<Rightarrow> Inl KeyError
                | Some v \<Rightarrow>
                   (let centers = asarray_uint32 v;
                        centers = (if table_size centers = 0 then centers else tl centers)
                    in
                    bind_err (for_each (paint_center roi t ch) centers result) (\<lambda>result.
                    Inr (Table centers, result))))))))"

definition OpObjectCenterImage_execute ::
  "('f \<Rightarrow> center_table) \<Rightarrow> 'f OpObjectCenterImage \<Rightarrow> slot_id \<Rightarrow> nat list \<Rightarrow> roi \<Rightarrow>
   nat ndarray \<Rightarrow> error + nat ndarray" where
  "OpObjectCenterImage_execute asarray_uint32 self slot subindex roi result =
     (if slot = SlotOutput
      then bind_err (fill result 0) (\<lambda>result.
           if start roi = [] \<or> stop roi = [] then Inl IndexError
           else for_each (\<lambda>t result.
                  bind_err (RegionCenters self [t]) (\<lambda>centers.
                  bind_err (for_each (channel_body asarray_uint32 roi t)
                              [last (start roi)..last (stop roi) - 1] (Fetched centers, result))
                    (\<lambda>state. Inr (snd state))))
                [hd (start roi)..hd (stop roi) - 1] result)
      else Inl AssertionError)"

definition OpObjectCenterImage_propagateDirty ::
  "'f OpObjectCenterImage \<Rightarrow> slot_id \<Rightarrow> nat list \<Rightarrow> roi \<Rightarrow> 'f OpObjectCenterImage" where
  "OpObjectCenterImage_propagateDirty self slot subindex roi =
     (if slot = SlotRegionCenters
      then self\<lparr>Output_image := setDirty_everything (Output_image self)\<rparr>
      else self)"

text \<open>
  The table \<open>centers\<close> with every entry of its row 0, the row of the background label,
  replaced by \<open>z\<close>. It serves to state that the background row has no influence on the
  painted image.
\<close>

definition set_background :: "32 word \<Rightarrow> center_table \<Rightarrow> center_table" where
  "set_background z centers =
     (case centers of [] \<Rightarrow> [] | row0 # rows \<Rightarrow> map (\<lambda>v. z) row0 # rows)"

section \<open>Example operators\<close>

definition example_volume :: metadata where
  "example_volume = \<lparr>mshape = [1, 4, 4, 4, 1], axistags = ''txyzc''\<rparr>"

definition example_op3d :: "(nat, nat) OpRegionFeatures3d" where
  "example_op3d =
     \<lparr>featureNames = [''RegionCenter''],
      RawVolume = \<lparr>meta = example_volume, content = sum_list\<rparr>,
      LabelVolume = \<lparr>meta = example_volume, content = (\<lambda>k. 1)\<rparr>,
      Output = \<lparr>ometa = \<lparr>mshape = [], axistags = []\<rparr>, dirty = []\<rparr>\<rparr>"

definition example_op3d_mismatch :: "(nat, nat) OpRegionFeatures3d" where
  "example_op3d_mismatch =
     example_op3d\<lparr>LabelVolume := \<lparr>meta = \<lparr>mshape = [1, 4, 4, 3, 1], axistags = ''txyzc''\<rparr>,
                                   content = (\<lambda>k. 1)\<rparr>\<rparr>"

definition example_cached :: OpCachedRegionFeatures where
  "example_cached =
     \<lparr>RawImage = \<lparr>mshape = [3, 4, 4, 4, 2], axistags = ''txyzc''\<rparr>,
      LabelImage = \<lparr>mshape = [3, 4, 4, 4, 2], axistags = ''txyzc''\<rparr>,
      inner_shape = [3, 2], blockShape = None\<rparr>"

definition example_cached_mismatch :: OpCachedRegionFeatures where
  "example_cached_mismatch =
     example_cached\<lparr>LabelImage := \<lparr>mshape = [3, 4, 4, 4, 2], axistags = ''tzyxc''\<rparr>\<rparr>"

definition example_adapt :: "string OpAdaptTimeListRoi" where
  "example_adapt =
     \<lparr>Input = \<lparr>meta = \<lparr>mshape = [2, 2], axistags = ''tc''\<rparr>,
               content = (\<lambda>k. if k = [0, 0] then ''a'' else if k = [0, 1] then ''b''
                              else if k = [1, 0] then ''c'' else ''d'')\<rparr>\<rparr>"

definition example_centers ::
  "int list \<Rightarrow> error + (int \<rightharpoonup> (string \<rightharpoonup> center_table) list)" where
  "example_centers ts =
     Inr (map_of (map (\<lambda>t. (t, [[''RegionCenter'' \<mapsto> [[0, 0, 0], [5, 5, 5]]],
                                  [''RegionCenter'' \<mapsto> [[0, 0, 0], [7, 7, 7]]]])) ts))"

definition example_center_op :: "center_table OpObjectCenterImage" where
  "example_center_op =
     \<lparr>BinaryImage = \<lparr>mshape = [1, 20, 20, 20, 2], axistags = ''txyzc''\<rparr>,
      RegionCenters = example_centers,
      Output_image = \<lparr>ometa = \<lparr>mshape = [1, 20, 20, 20, 2], axistags = ''txyzc''\<rparr>,
                      dirty = []\<rparr>\<rparr>"

definition example_buffer :: "nat list \<Rightarrow> nat ndarray" where
  "example_buffer shp = \<lparr>shape = shp, cell = (\<lambda>k. 7)\<rparr>"

definition example_extract ::
  "nat ndarray \<Rightarrow> nat ndarray \<Rightarrow> string list \<Rightarrow> nat \<Rightarrow> error + (nat list \<times> nat)" where
  "example_extract im lb names ignoreLabel = Inr (shape im, cell im [3, 2, 1] + cell lb [0, 0, 0])"

definition example_op3d_ready :: "(nat, nat) OpRegionFeatures3d" where
  "example_op3d_ready =
     example_op3d\<lparr>Output := \<lparr>ometa = \<lparr>mshape = [1, 1], axistags = ''tc''\<rparr>, dirty = []\<rparr>\<rparr>"

definition example_cell :: "(nat list \<times> nat) ndarray" where
  "example_cell = \<lparr>shape = [1, 1], cell = (\<lambda>k. ([], 0))\<rparr>"

definition example_roi :: roi where
  "example_roi = \<lparr>start = [0, 0, 0, 0, 0], stop = [1, 20, 20, 20, 1]\<rparr>"

section \<open>Verified properties\<close>

subsection \<open>Auxiliary facts\<close>

lemma bind_err_Inr [simp]: "bind_err (Inr x) f = f x"
  by (simp add: bind_err_def)

lemma bind_err_Inl [simp]: "bind_err (Inl e) f = Inl e"
  by (simp add: bind_err_def)

lemma update_fresh: "k \<notin> fst ` set d \<Longrightarrow> AList.update k v d = d @ [(k, v)]"
  by (induction d) auto

lemma foldl_update_distinct:
  "distinct (map fst (d @ kvs)) \<Longrightarrow>
   foldl (\<lambda>d (k, v). AList.update k v d) d kvs = d @ kvs"
proof (induction kvs arbitrary: d)
  case Nil
  then show ?case by simp
next
  case (Cons kv kvs)
  obtain k v where kv: "kv = (k, v)" by (cases kv)
  from Cons.prems have fresh: "k \<notin> fst ` set d" by (auto simp: kv)
  from Cons.prems have "distinct (map fst ((d @ [(k, v)]) @ kvs))" by (simp add: kv)
  from Cons.IH[OF this] show ?case by (simp add: kv update_fresh[OF fresh])
qed

lemma OrderedDict_distinct: "distinct (map fst kvs) \<Longrightarrow> OrderedDict kvs = kvs"
  using foldl_update_distinct[of "[]" kvs] by (simp add: OrderedDict_def)

lemma getTaggedShape_distinct:
  "distinct (axistags m) \<Longrightarrow> length (axistags m) = length (mshape m) \<Longrightarrow>
   getTaggedShape m = zip (axistags m) (mshape m)"
  by (simp add: getTaggedShape_def OrderedDict_distinct)

lemma od_del_present:
  assumes "k \<in> fst ` set d"
  shows "od_del d k = Inr (filter (\<lambda>kv. fst kv \<noteq> k) d)"
proof -
  have "AList.delete k d = filter (\<lambda>kv. fst kv \<noteq> k) d"
    by (auto simp: AList.delete_eq intro: filter_cong)
  then show ?thesis using assms by (simp add: od_del_def keys_def)
qed

lemma del_xyz:
  assumes "CHR ''x'' \<in> fst ` set d" "CHR ''y'' \<in> fst ` set d" "CHR ''z'' \<in> fst ` set d"
  shows "bind_err (od_del d CHR ''x'') (\<lambda>d1. bind_err (od_del d1 CHR ''y'') (\<lambda>d2.
           bind_err (od_del d2 CHR ''z'') f)) =
         f (filter (\<lambda>kv. fst kv \<notin> set ''xyz'') d)"
proof -
  let ?d1 = "filter (\<lambda>kv. fst kv \<noteq> CHR ''x'') d"
  let ?d2 = "filter (\<lambda>kv. fst kv \<noteq> CHR ''y'') ?d1"
  have y: "CHR ''y'' \<in> fst ` set ?d1" using assms(2) by force
  have z: "CHR ''z'' \<in> fst ` set ?d2" using assms(3) by force
  have eq: "filter (\<lambda>kv. fst kv \<noteq> CHR ''z'') ?d2 = filter (\<lambda>kv. fst kv \<notin> set ''xyz'') d"
    by (auto intro: filter_cong)
  show ?thesis
    by (simp only: od_del_present[OF assms(1)] od_del_present[OF y] od_del_present[OF z]
        bind_err_Inr eq)
qed

lemma example_tagged:
  "getTaggedShape example_volume =
     [(CHR ''t'', 1), (CHR ''x'', 4), (CHR ''y'', 4), (CHR ''z'', 4), (CHR ''c'', 1)]"
  by (simp add: getTaggedShape_def OrderedDict_def example_volume_def)

lemma example_axes:
  "set (keys (getTaggedShape example_volume)) - set ''tc'' = set ''xyz''"
  unfolding example_tagged keys_def by auto

lemma example_setup:
  "OpRegionFeatures3d_setupOutputs example_op3d =
     Inr (example_op3d\<lparr>Output := \<lparr>ometa = \<lparr>mshape = [1, 1], axistags = ''tc''\<rparr>, dirty = []\<rparr>\<rparr>)"
proof -
  have m: "meta (LabelVolume example_op3d) = example_volume"
    "meta (RawVolume example_op3d) = example_volume"
    "Output example_op3d = \<lparr>ometa = \<lparr>mshape = [], axistags = []\<rparr>, dirty = []\<rparr>"
    by (simp_all add: example_op3d_def)
  show ?thesis
    unfolding OpRegionFeatures3d_setupOutputs_def m Let_def example_axes
    unfolding example_tagged
    by (simp add: keys_def od_get_def od_del_def values_od_def)
qed

lemma bind_err_Inr_iff:
  "bind_err m f = Inr y \<longleftrightarrow> (\<exists>x. m = Inr x \<and> f x = Inr y)"
  by (cases m) simp_all

lemma slot_all_whole:
  "slot_all s =
     Inr \<lparr>shape = mshape (meta s),
          cell = (\<lambda>k. content s (map2 (+) k (replicate (length (mshape (meta s))) 0)))\<rparr>"
proof -
  let ?shp = "mshape (meta s)"
  have a: "list_all2 (\<lambda>a b. 0 \<le> a \<and> a \<le> b) (replicate (length ?shp) 0) (map int ?shp)"
    by (simp add: list_all2_conv_all_nth)
  have b: "list_all2 (\<lambda>b n. b \<le> int n) (map int ?shp) ?shp"
    by (simp add: list_all2_conv_all_nth)
  have c: "map nat (map2 (-) (map int ?shp) (replicate (length ?shp) 0)) = ?shp"
    by (rule nth_equalityI) simp_all
  show ?thesis
    unfolding slot_all_def slot_request_def roi_in_shape_def
    using a b c by simp
qed

lemma length_embed_axes: "length (embed_axes tags keep ks) \<le> length tags"
  by (induction tags keep ks rule: embed_axes.induct) (auto split: list.splits)

lemma add_zeros: "length xs \<le> n \<Longrightarrow> map2 (+) xs (replicate n (0::nat)) = xs"
  by (rule nth_equalityI) simp_all

lemma embed_axes_cong:
  "(\<And>a. a \<in> set tags \<Longrightarrow> a \<in> set keep \<longleftrightarrow> a \<in> set keep') \<Longrightarrow>
   embed_axes tags keep ks = embed_axes tags keep' ks"
  by (induction tags keep ks rule: embed_axes.induct) (auto split: list.splits)

lemma withAxes_whole:
  assumes len: "length (axistags (meta s)) = length (mshape (meta s))"
    and single: "list_all (\<lambda>(k, n). k \<in> set ''xyz'' \<or> n = 1)
                   (zip (axistags (meta s)) (mshape (meta s)))"
  shows "bind_err (slot_all s) (\<lambda>v. withAxes v (axistags (meta s))
            (filter (\<lambda>k. k \<in> set ''xyz'') (axistags (meta s)))) = Inr (entire_volume3d s)"
proof -
  let ?tags = "axistags (meta s)" and ?shp = "mshape (meta s)"
  let ?keep = "filter (\<lambda>k. k \<in> set ''xyz'') ?tags"
  have mem: "\<And>k n. (k, n) \<in> set (zip ?tags ?shp) \<Longrightarrow> k \<in> set ?keep \<longleftrightarrow> k \<in> set ''xyz''"
    by (auto dest: set_zip_leftD)
  have all1: "list_all (\<lambda>(k, n). k \<in> set ?keep \<or> n = 1) (zip ?tags ?shp)"
    using single mem unfolding list_all_iff by fastforce
  have flt: "filter (\<lambda>(k, n). k \<in> set ?keep) (zip ?tags ?shp) =
             filter (\<lambda>(k, n). k \<in> set ''xyz'') (zip ?tags ?shp)"
    by (rule filter_cong) (use mem in auto)
  have emb: "\<And>ks. embed_axes ?tags ?keep ks = embed_axes ?tags ''xyz'' ks"
    by (rule embed_axes_cong) auto
  have cells: "\<And>ks. map2 (+) (embed_axes ?tags ''xyz'' ks) (replicate (length ?shp) 0) =
                   embed_axes ?tags ''xyz'' ks"
    by (rule add_zeros) (use length_embed_axes[of ?tags] len in \<open>simp add: le_trans\<close>)
  show ?thesis
    unfolding slot_all_whole bind_err_Inr withAxes_def entire_volume3d_def
    by (simp only: ndarray.select_convs len all1 flt emb cells if_True refl)
qed

lemma setup_facts:
  assumes ok: "OpRegionFeatures3d_setupOutputs initial = Inr self"
  shows "mshape (meta (LabelVolume initial)) = mshape (meta (RawVolume initial))" (is ?A)
    and "axistags (meta (LabelVolume initial)) = axistags (meta (RawVolume initial))" (is ?B)
    and "CHR ''t'' \<in> set (keys (getTaggedShape (meta (LabelVolume initial)))) \<longrightarrow>
          od_get (getTaggedShape (meta (LabelVolume initial))) CHR ''t'' = Inr 1" (is ?C)
    and "CHR ''c'' \<in> set (keys (getTaggedShape (meta (LabelVolume initial)))) \<longrightarrow>
          od_get (getTaggedShape (meta (LabelVolume initial))) CHR ''c'' = Inr 1" (is ?D)
    and "set (keys (getTaggedShape (meta (LabelVolume initial)))) - set ''tc'' = set ''xyz''" (is ?E)
    and "RawVolume self = RawVolume initial \<and> LabelVolume self = LabelVolume initial \<and>
         featureNames self = featureNames initial" (is ?F)
proof -
  note d = OpRegionFeatures3d_setupOutputs_def Let_def
  show a: ?A by (rule ccontr) (use ok in \<open>simp add: d\<close>)
  show b: ?B by (rule ccontr) (use ok a in \<open>simp add: d\<close>)
  from ok a b
  have rest: "?C \<and> ?D \<and> ?E \<and>
      (\<exists>d3. self = initial\<lparr>Output := (Output initial)
                  \<lparr>ometa := \<lparr>mshape = values_od d3, axistags = keys d3\<rparr>\<rparr>\<rparr>)"
    by (simp add: d bind_err_Inr_iff split: if_splits) blast
  from rest show ?C ?D ?E by simp_all
  from rest have "\<exists>d3. self = initial\<lparr>Output := (Output initial)
                  \<lparr>ometa := \<lparr>mshape = values_od d3, axistags = keys d3\<rparr>\<rparr>\<rparr>"
    by simp
  then show ?F by auto
qed

lemma singleton_axes:
  assumes ok: "OpRegionFeatures3d_setupOutputs initial = Inr self"
    and dist: "distinct (axistags (meta (RawVolume initial)))"
    and len: "length (axistags (meta (RawVolume initial))) = length (mshape (meta (RawVolume initial)))"
  shows "list_all (\<lambda>(k, n). k \<in> set ''xyz'' \<or> n = 1)
           (zip (axistags (meta (RawVolume initial))) (mshape (meta (RawVolume initial))))"
proof -
  let ?tags = "axistags (meta (RawVolume initial))" and ?shp = "mshape (meta (RawVolume initial))"
  note f = setup_facts[OF ok]
  have T: "getTaggedShape (meta (LabelVolume initial)) = zip ?tags ?shp"
    using getTaggedShape_distinct[of "meta (LabelVolume initial)"] dist len f(1,2) by simp
  have ks: "keys (zip ?tags ?shp) = ?tags"
    using len by (simp add: keys_def)
  have dz: "distinct (map fst (zip ?tags ?shp))"
    using dist len by simp
  have "k \<in> set ''xyz'' \<or> n = 1" if kn: "(k, n) \<in> set (zip ?tags ?shp)" for k n
  proof (cases "k \<in> set ''xyz''")
    case True
    then show ?thesis by simp
  next
    case False
    have kin: "k \<in> set ?tags" using kn by (rule set_zip_leftD)
    with False f(5) have "k \<in> set ''tc''"
      unfolding T ks by blast
    then have "k = CHR ''t'' \<or> k = CHR ''c''" by simp
    with f(3,4) kin have "od_get (zip ?tags ?shp) k = Inr 1"
      unfolding T ks by blast
    then have "map_of (zip ?tags ?shp) k = Some 1"
      by (simp add: od_get_def split: option.splits)
    moreover have "map_of (zip ?tags ?shp) k = Some n"
      using dz kn by simp
    ultimately show ?thesis by simp
  qed
  then show ?thesis
    unfolding list_all_iff by blast
qed

lemma norm_key_length: "norm_key ns key = Some k \<Longrightarrow> length k = length key"
  by (induction ns key arbitrary: k rule: norm_key.induct) (auto split: option.splits)

subsection \<open>Composite operators cannot be executed\<close>

text \<open>
  Claim C9. For every slot, subindex and region of interest, a direct \<^verbatim>\<open>execute\<close> call on
  the routing operators \<^verbatim>\<open>OpObjectExtraction\<close>, \<^verbatim>\<open>OpRegionFeatures\<close> and
  \<^verbatim>\<open>OpCachedRegionFeatures\<close> fails with the assertion error and returns no result.
\<close>

theorem composite_execute_unreachable:
  "OpObjectExtraction_execute self1 slot1 subindex1 roi1 (result1 :: 'a ndarray) =
     Inl AssertionError \<and>
   OpRegionFeatures_execute self2 slot2 subindex2 roi2 (result2 :: 'b ndarray) =
     Inl AssertionError \<and>
   OpCachedRegionFeatures_execute self3 slot3 subindex3 roi3 (result3 :: 'c ndarray) =
     Inl AssertionError"
  by (simp add: OpObjectExtraction_execute_def OpRegionFeatures_execute_def
      OpCachedRegionFeatures_execute_def)

subsection \<open>OpRegionFeatures3d extracts from the entire volume\<close>

text \<open>
  Claim C1. On an operator that was set up (with distinct axis tags, one per axis), every
  request on \<^verbatim>\<open>Output\<close> whose region of interest has the output's dimension and a
  product of extents equal to 1 reads the entire raw volume and the entire label volume,
  whatever the region of interest is, hands their full spatial extent to the extractor, and
  stores the one feature record the extractor returns in the result at the start coordinate
  of the region of interest; the result keeps its shape and its other cells.
\<close>

theorem execute_extracts_entire_volume:
  assumes ok: "OpRegionFeatures3d_setupOutputs initial = Inr self"
    and dist: "distinct (axistags (meta (RawVolume initial)))"
    and len: "length (axistags (meta (RawVolume initial))) = length (mshape (meta (RawVolume initial)))"
    and roi_len: "length (start roi) = length (mshape (ometa (Output self)))"
      "length (stop roi) = length (start roi)"
    and one_cell: "prod_list (map2 (-) (stop roi) (start roi)) = 1"
    and extracted: "extractRegionFeatures (entire_volume3d (RawVolume self))
        (entire_volume3d (LabelVolume self)) (featureNames self) 0 = Inr acc"
    and buffer: "length (shape result) = length (start roi)"
      "norm_key (shape result) (start roi) = Some k"
  shows "\<exists>result'.
           OpRegionFeatures3d_execute extractRegionFeatures self SlotOutput subindex roi result =
             Inr result' \<and>
           getitem result' (start roi) = Inr acc \<and>
           shape result' = shape result \<and>
           (\<forall>p. p \<noteq> k \<longrightarrow> length p = length k \<longrightarrow> cell result' p = cell result p)"
proof -
  note f = setup_facts[OF ok]
  let ?tags = "axistags (meta (RawVolume initial))"
  from f(6) have same: "RawVolume self = RawVolume initial" "LabelVolume self = LabelVolume initial"
    by simp_all
  have single: "list_all (\<lambda>(k, n). k \<in> set ''xyz'' \<or> n = 1)
      (zip ?tags (mshape (meta (RawVolume initial))))"
    by (rule singleton_axes[OF ok dist len])
  have axes: "keys (getTaggedShape (meta (RawVolume initial))) = ?tags"
    using dist len by (simp add: getTaggedShape_distinct keys_def)
  have raw: "bind_err (slot_all (RawVolume initial)) (\<lambda>v. withAxes v ?tags
            (filter (\<lambda>k. k \<in> set ''xyz'') ?tags)) = Inr (entire_volume3d (RawVolume initial))"
    by (rule withAxes_whole[OF len single])
  have lab: "bind_err (slot_all (LabelVolume initial)) (\<lambda>v. withAxes v ?tags
            (filter (\<lambda>k. k \<in> set ''xyz'') ?tags)) = Inr (entire_volume3d (LabelVolume initial))"
    using withAxes_whole[of "LabelVolume initial"] len single f(1,2) by simp
  obtain rv where rv: "slot_all (RawVolume initial) = Inr rv"
    "withAxes rv ?tags (filter (\<lambda>k. k \<in> set ''xyz'') ?tags) = Inr (entire_volume3d (RawVolume initial))"
    using raw by (auto simp: bind_err_Inr_iff)
  obtain lv where lv: "slot_all (LabelVolume initial) = Inr lv"
    "withAxes lv ?tags (filter (\<lambda>k. k \<in> set ''xyz'') ?tags) = Inr (entire_volume3d (LabelVolume initial))"
    using lab by (auto simp: bind_err_Inr_iff)
  let ?r = "result\<lparr>cell := (\<lambda>p. if take (length k) p = k then acc else cell result p)\<rparr>"
  have lk: "length k = length (start roi)"
    using buffer(2) by (rule norm_key_length)
  have run: "OpRegionFeatures3d_execute extractRegionFeatures self SlotOutput subindex roi result =
      Inr ?r"
    unfolding OpRegionFeatures3d_execute_def Let_def same axes
    using roi_len one_cell extracted rv lv f(2) buffer(2)
    by (simp add: same OpRegionFeatures3d_extract_def setitem_def)
  have get: "getitem ?r (start roi) = Inr acc"
    using buffer by (simp add: getitem_def)
  have rest: "\<forall>p. p \<noteq> k \<longrightarrow> length p = length k \<longrightarrow> cell ?r p = cell result p"
    by simp
  from run get rest show ?thesis by simp
qed

theorem execute_extracts_entire_volume_witness:
  "\<exists>result'.
     OpRegionFeatures3d_execute example_extract example_op3d_ready SlotOutput []
        \<lparr>start = [0, 0], stop = [1, 1]\<rparr> example_cell = Inr result' \<and>
     getitem result' [0, 0] = Inr ([4, 4, 4], 7)"
proof -
  have ok: "OpRegionFeatures3d_setupOutputs example_op3d = Inr example_op3d_ready"
    unfolding example_op3d_ready_def by (rule example_setup)
  have dist: "distinct (axistags (meta (RawVolume example_op3d)))"
    and len: "length (axistags (meta (RawVolume example_op3d))) =
      length (mshape (meta (RawVolume example_op3d)))"
    by (simp_all add: example_op3d_def example_volume_def)
  have ext: "example_extract (entire_volume3d (RawVolume example_op3d_ready))
        (entire_volume3d (LabelVolume example_op3d_ready)) (featureNames example_op3d_ready) 0 =
      Inr ([4, 4, 4], 7)"
    by (simp add: example_extract_def entire_volume3d_def example_op3d_ready_def
        example_op3d_def example_volume_def)
  have key: "norm_key (shape example_cell) (start \<lparr>start = [0, 0], stop = [1, 1]\<rparr>) = Some [0, 0]"
    by (simp add: example_cell_def norm_index_def)
  have roi_len: "length (start \<lparr>start = [0, 0], stop = [1, 1]\<rparr>) =
      length (mshape (ometa (Output example_op3d_ready)))"
    "length (stop \<lparr>start = [0, 0], stop = [1, 1]\<rparr>) = length (start \<lparr>start = [0, 0], stop = [1, 1]\<rparr>)"
    by (simp_all add: example_op3d_ready_def)
  have one: "prod_list (map2 (-) (stop \<lparr>start = [0, 0], stop = [1, 1]\<rparr>)
      (start \<lparr>start = [0, 0], stop = [1, 1]\<rparr>)) = 1"
    by simp
  have buf: "length (shape example_cell) = length (start \<lparr>start = [0, 0], stop = [1, 1]\<rparr>)"
    by (simp add: example_cell_def)
  have "\<exists>result'.
           OpRegionFeatures3d_execute example_extract example_op3d_ready SlotOutput []
             \<lparr>start = [0, 0], stop = [1, 1]\<rparr> example_cell = Inr result' \<and>
           getitem result' (start \<lparr>start = [0, 0], stop = [1, 1]\<rparr>) = Inr ([4, 4, 4], 7) \<and>
           shape result' = shape example_cell \<and>
           (\<forall>p. p \<noteq> [0, 0] \<longrightarrow> length p = length [0::nat, 0] \<longrightarrow>
              cell result' p = cell example_cell p)"
    by (rule execute_extracts_entire_volume[where initial = example_op3d
          and self = example_op3d_ready and roi = "\<lparr>start = [0, 0], stop = [1, 1]\<rparr>"
          and extractRegionFeatures = example_extract and acc = "([4, 4, 4], 7)"
          and result = example_cell and k = "[0, 0]" and subindex = "[]",
          OF ok dist len roi_len one ext buf key])
  then show ?thesis by auto
qed

subsection \<open>Setup demands matching inputs\<close>

text \<open>
  Claim C3. \<^verbatim>\<open>OpRegionFeatures3d.setupOutputs\<close> and \<^verbatim>\<open>OpCachedRegionFeatures.setupOutputs\<close>
  fail with the assertion error whenever the shapes of the raw and the label input differ or
  their axis tags differ, and whenever either of them succeeds the two inputs have the same
  shape and the same axis tags.
\<close>

theorem setupOutputs_requires_matching_inputs:
  "(mshape (meta (LabelVolume op3)) \<noteq> mshape (meta (RawVolume op3)) \<or>
    axistags (meta (LabelVolume op3)) \<noteq> axistags (meta (RawVolume op3))
      \<longrightarrow> OpRegionFeatures3d_setupOutputs op3 = Inl AssertionError) \<and>
   (\<forall>op3'. OpRegionFeatures3d_setupOutputs op3 = Inr op3'
      \<longrightarrow> mshape (meta (LabelVolume op3)) = mshape (meta (RawVolume op3)) \<and>
          axistags (meta (LabelVolume op3)) = axistags (meta (RawVolume op3))) \<and>
   (mshape (LabelImage opc) \<noteq> mshape (RawImage opc) \<or>
    axistags (LabelImage opc) \<noteq> axistags (RawImage opc)
      \<longrightarrow> OpCachedRegionFeatures_setupOutputs opc = Inl AssertionError) \<and>
   (\<forall>opc'. OpCachedRegionFeatures_setupOutputs opc = Inr opc'
      \<longrightarrow> mshape (LabelImage opc) = mshape (RawImage opc) \<and>
          axistags (LabelImage opc) = axistags (RawImage opc))"
  by (auto simp: OpRegionFeatures3d_setupOutputs_def OpCachedRegionFeatures_setupOutputs_def
      split: if_splits)

theorem setupOutputs_requires_matching_inputs_witness:
  "mshape (meta (LabelVolume example_op3d_mismatch)) \<noteq>
     mshape (meta (RawVolume example_op3d_mismatch)) \<and>
   OpRegionFeatures3d_setupOutputs example_op3d_mismatch = Inl AssertionError \<and>
   OpRegionFeatures3d_setupOutputs example_op3d =
     Inr (example_op3d\<lparr>Output := \<lparr>ometa = \<lparr>mshape = [1, 1], axistags = ''tc''\<rparr>, dirty = []\<rparr>\<rparr>) \<and>
   mshape (meta (LabelVolume example_op3d)) = mshape (meta (RawVolume example_op3d)) \<and>
   axistags (meta (LabelVolume example_op3d)) = axistags (meta (RawVolume example_op3d)) \<and>
   axistags (LabelImage example_cached_mismatch) \<noteq> axistags (RawImage example_cached_mismatch) \<and>
   OpCachedRegionFeatures_setupOutputs example_cached_mismatch = Inl AssertionError \<and>
   OpCachedRegionFeatures_setupOutputs example_cached =
     Inr (example_cached\<lparr>blockShape := Some [1, 1]\<rparr>) \<and>
   mshape (LabelImage example_cached) = mshape (RawImage example_cached) \<and>
   axistags (LabelImage example_cached) = axistags (RawImage example_cached)"
proof -
  note bad = setupOutputs_requires_matching_inputs[of example_op3d_mismatch example_cached_mismatch]
  note good = setupOutputs_requires_matching_inputs[of example_op3d example_cached]
  have bad3: "mshape (meta (LabelVolume example_op3d_mismatch)) \<noteq>
     mshape (meta (RawVolume example_op3d_mismatch))"
    by (simp add: example_op3d_mismatch_def example_op3d_def example_volume_def)
  have badc: "axistags (LabelImage example_cached_mismatch) \<noteq>
     axistags (RawImage example_cached_mismatch)"
    by (simp add: example_cached_mismatch_def example_cached_def)
  have goodc: "OpCachedRegionFeatures_setupOutputs example_cached =
     Inr (example_cached\<lparr>blockShape := Some [1, 1]\<rparr>)"
    by (simp add: OpCachedRegionFeatures_setupOutputs_def example_cached_def)
  have r1: "OpRegionFeatures3d_setupOutputs example_op3d_mismatch = Inl AssertionError"
    by (rule bad[THEN conjunct1, THEN mp, OF disjI1, OF bad3])
  have r2: "OpCachedRegionFeatures_setupOutputs example_cached_mismatch = Inl AssertionError"
    by (rule bad[THEN conjunct2, THEN conjunct2, THEN conjunct1, THEN mp, OF disjI2, OF badc])
  have g1: "mshape (meta (LabelVolume example_op3d)) = mshape (meta (RawVolume example_op3d)) \<and>
    axistags (meta (LabelVolume example_op3d)) = axistags (meta (RawVolume example_op3d))"
    by (rule good[THEN conjunct2, THEN conjunct1, rule_format, OF example_setup])
  have g2: "mshape (LabelImage example_cached) = mshape (RawImage example_cached) \<and>
    axistags (LabelImage example_cached) = axistags (RawImage example_cached)"
    by (rule good[THEN conjunct2, THEN conjunct2, THEN conjunct2, rule_format, OF goodc])
  show ?thesis
    by (intro conjI bad3 r1 example_setup g1[THEN conjunct1] g1[THEN conjunct2] badc r2 goodc
        g2[THEN conjunct1] g2[THEN conjunct2])
qed

subsection \<open>Dirty propagation of OpRegionFeatures3d\<close>

text \<open>
  Claim C4. For a dirty notification with a box over the input's axes, where the axis tags
  are distinct and contain \<open>x\<close>, \<open>y\<close> and \<open>z\<close>, \<^verbatim>\<open>propagateDirty\<close> marks the output dirty
  over exactly the box whose start and stop are the given ones with the \<open>x\<close>, \<open>y\<close> and
  \<open>z\<close> components deleted; the remaining components keep their order.
\<close>

theorem propagateDirty_drops_spatial:
  assumes "distinct (axistags (meta (RawVolume self)))"
    and "length (axistags (meta (RawVolume self))) = length (mshape (meta (RawVolume self)))"
    and "length (start roi) = length (axistags (meta (RawVolume self)))"
    and "length (stop roi) = length (axistags (meta (RawVolume self)))"
    and "set ''xyz'' \<subseteq> set (axistags (meta (RawVolume self)))"
  shows "OpRegionFeatures3d_propagateDirty self slot subindex roi =
           Inr (self\<lparr>Output := (Output self)\<lparr>dirty := dirty (Output self) @
             [\<lparr>start = map snd (filter (\<lambda>kv. fst kv \<notin> set ''xyz'')
                                (zip (axistags (meta (RawVolume self))) (start roi))),
               stop = map snd (filter (\<lambda>kv. fst kv \<notin> set ''xyz'')
                                (zip (axistags (meta (RawVolume self))) (stop roi)))\<rparr>]\<rparr>\<rparr>)"
proof -
  let ?tags = "axistags (meta (RawVolume self))"
  have axes: "keys (getTaggedShape (meta (RawVolume self))) = ?tags"
    using assms(1,2) by (simp add: getTaggedShape_distinct keys_def)
  have ds: "OrderedDict (zip ?tags (start roi)) = zip ?tags (start roi)"
    using assms(1,3) by (simp add: OrderedDict_distinct)
  have dp: "OrderedDict (zip ?tags (stop roi)) = zip ?tags (stop roi)"
    using assms(1,4) by (simp add: OrderedDict_distinct)
  have ins: "CHR ''x'' \<in> fst ` set (zip ?tags (start roi))"
    "CHR ''y'' \<in> fst ` set (zip ?tags (start roi))"
    "CHR ''z'' \<in> fst ` set (zip ?tags (start roi))"
    using assms(3,5) by (simp_all flip: set_map)
  have inp: "CHR ''x'' \<in> fst ` set (zip ?tags (stop roi))"
    "CHR ''y'' \<in> fst ` set (zip ?tags (stop roi))"
    "CHR ''z'' \<in> fst ` set (zip ?tags (stop roi))"
    using assms(4,5) by (simp_all flip: set_map)
  show ?thesis
    unfolding OpRegionFeatures3d_propagateDirty_def Let_def axes ds dp
    by (simp add: del_xyz[OF ins] del_xyz[OF inp] setDirty_def values_od_def)
qed

theorem propagateDirty_drops_spatial_witness:
  "OpRegionFeatures3d_propagateDirty example_op3d SlotRawVolume []
       \<lparr>start = [0, 1, 2, 3, 0], stop = [1, 2, 4, 4, 1]\<rparr> =
     Inr (example_op3d\<lparr>Output := (Output example_op3d)
            \<lparr>dirty := [\<lparr>start = [0, 0], stop = [1, 1]\<rparr>]\<rparr>\<rparr>)"
  using propagateDirty_drops_spatial[of example_op3d
      "\<lparr>start = [0, 1, 2, 3, 0], stop = [1, 2, 4, 4, 1]\<rparr>" SlotRawVolume "[]"]
  by (simp add: example_op3d_def example_volume_def)

subsection \<open>Dirty propagation of OpObjectCenterImage\<close>

text \<open>
  Claim C10. A dirty notification on \<^verbatim>\<open>RegionCenters\<close> marks the whole extent of the
  output dirty, whatever region was notified; a dirty notification on \<^verbatim>\<open>BinaryImage\<close>
  leaves the operator, and with it the dirty state of the output, unchanged.
\<close>

theorem center_image_propagateDirty:
  "OpObjectCenterImage_propagateDirty self SlotRegionCenters subindex roi =
     self\<lparr>Output_image := (Output_image self)\<lparr>dirty := dirty (Output_image self) @
        [\<lparr>start = replicate (length (mshape (ometa (Output_image self)))) 0,
          stop = map int (mshape (ometa (Output_image self)))\<rparr>]\<rparr>\<rparr> \<and>
   OpObjectCenterImage_propagateDirty self SlotBinaryImage subindex roi = self"
  by (simp add: OpObjectCenterImage_propagateDirty_def setDirty_everything_def setDirty_def)

subsection \<open>The background row is never painted\<close>

lemma drop_background_row:
  "(if table_size (set_background z centers) = 0 then set_background z centers
    else tl (set_background z centers)) =
   (if table_size centers = 0 then centers else tl centers)"
  by (cases centers) (auto simp: set_background_def table_size_def)

lemma channel_body_background:
  "channel_body (\<lambda>v. set_background z (conv v)) roi t ch state = channel_body conv roi t ch state"
  unfolding channel_body_def Let_def drop_background_row ..

text \<open>
  Claim C7. Row 0 of every non-empty region-center table that \<^verbatim>\<open>execute\<close> fetches is
  dropped before the loop over the centers starts, so the outcome of \<^verbatim>\<open>execute\<close> does
  not depend on what row 0 holds: overwriting the background row of every converted table
  with an arbitrary value \<open>z\<close> changes nothing, hence no marker stems from label 0.
\<close>

theorem background_row_never_painted:
  "OpObjectCenterImage_execute (\<lambda>v. set_background z (asarray_uint32 v)) self slot subindex roi result =
   OpObjectCenterImage_execute asarray_uint32 self slot subindex roi result"
proof -
  have eq: "\<And>t. channel_body (\<lambda>v. set_background z (asarray_uint32 v)) roi t =
      channel_body asarray_uint32 roi t"
    by (intro ext) (rule channel_body_background)
  show ?thesis
    unfolding OpObjectCenterImage_execute_def eq ..
qed

subsection \<open>OpAdaptTimeListRoi beyond the first time step\<close>

text \<open>
  Claim C5 (evaluation of the code). For an input with two time steps and two channels,
  \<^verbatim>\<open>execute\<close> with the empty time list raises \<^verbatim>\<open>IndexError\<close> instead of returning
  entries for the times 0 and 1: the request for time \<open>t\<close> has start \<open>t\<close> and stop 1 on
  the time axis, which for \<open>t = 1\<close> is an empty box, and \<^verbatim>\<open>flat[0]\<close> of an empty array
  fails.
\<close>

theorem empty_time_list_fails_after_first_step:
  "od_get (getTaggedShape (meta (Input example_adapt))) CHR ''t'' = Inr 2 \<and>
   OpAdaptTimeListRoi_execute example_adapt SlotOutput [] [] = Inl IndexError"
proof -
  have "(case OpAdaptTimeListRoi_execute example_adapt SlotOutput [] [] of
            Inl e \<Rightarrow> e = IndexError | Inr r \<Rightarrow> False)"
    by code_simp
  moreover have "od_get (getTaggedShape (meta (Input example_adapt))) CHR ''t'' = Inr 2"
    by code_simp
  ultimately show ?thesis by (simp split: sum.splits)
qed

text \<open>
  Claim C6 (evaluation of the code). On the same input, the request for time 0 maps 0 to
  the records of channel 0 and channel 1 in this order, but the request for time 1 raises
  \<^verbatim>\<open>IndexError\<close> and yields no list of records.
\<close>

theorem second_time_step_yields_no_records:
  "(\<exists>r. OpAdaptTimeListRoi_execute example_adapt SlotOutput [] [0] = Inr r \<and>
        r 0 = Some [''a'', ''b'']) \<and>
   OpAdaptTimeListRoi_execute example_adapt SlotOutput [] [1] = Inl IndexError"
proof -
  have "(case OpAdaptTimeListRoi_execute example_adapt SlotOutput [] [0] of
            Inl e \<Rightarrow> False | Inr r \<Rightarrow> r 0 = Some [''a'', ''b''])"
    by code_simp
  moreover have "(case OpAdaptTimeListRoi_execute example_adapt SlotOutput [] [1] of
            Inl e \<Rightarrow> e = IndexError | Inr r \<Rightarrow> False)"
    by code_simp
  ultimately show ?thesis by (simp split: sum.splits)
qed

subsection \<open>OpObjectCenterImage on more than one channel\<close>

text \<open>
  Claim C2 (evaluation of the code). A request whose region of interest spans two
  channels raises \<^verbatim>\<open>IndexError\<close>: in the second pass of the channel loop the variable
  \<^verbatim>\<open>centers\<close> holds the converted table of the first channel, not the fetched
  dictionary, so \<^verbatim>\<open>centers[t][ch]['RegionCenter']\<close> fails and the centers of the second
  channel are never marked.
\<close>

theorem two_channel_request_fails:
  "OpObjectCenterImage_execute (\<lambda>v. v) example_center_op SlotOutput []
      \<lparr>start = [0, 0, 0, 0, 0], stop = [1, 20, 20, 20, 2]\<rparr> (example_buffer [1, 20, 20, 20, 2]) =
     Inl IndexError"
proof -
  have "(case OpObjectCenterImage_execute (\<lambda>v. v) example_center_op SlotOutput []
              \<lparr>start = [0, 0, 0, 0, 0], stop = [1, 20, 20, 20, 2]\<rparr>
              (example_buffer [1, 20, 20, 20, 2]) of
            Inl e \<Rightarrow> e = IndexError | Inr r \<Rightarrow> False)"
    by code_simp
  then show ?thesis by (simp split: sum.splits)
qed

subsection \<open>The cross of a single center on one channel\<close>

lemma contained_eval:
  "contained_in_subregion example_roi [t, x, y, z, c] =
     Inr (0 \<le> t \<and> t < 1 \<and> 0 \<le> x \<and> x < 20 \<and> 0 \<le> y \<and> y < 20 \<and> 0 \<le> z \<and> z < 20 \<and> 0 \<le> c \<and> c < 1)"
  by (simp add: contained_in_subregion_def contained_step_def example_roi_def upt_rec)

text \<open>
  On a request for the whole \<open>20 \<times> 20 \<times> 20\<close> volume of time 0 and channel 0, where the
  region-center table holds the background row and the center \<open>(5, 5, 5)\<close>,
  \<^verbatim>\<open>OpObjectCenterImage.execute\<close> returns an image in which the center voxel and its six
  axis-aligned neighbours at distance 1 hold 255 and every other voxel holds 0.
\<close>

theorem single_center_cross:
  "\<exists>r. OpObjectCenterImage_execute (\<lambda>v. v) example_center_op SlotOutput [] example_roi
           (example_buffer [1, 20, 20, 20, 1]) = Inr r \<and>
        shape r = [1, 20, 20, 20, 1] \<and>
        (\<forall>x y z. cell r [0, x, y, z, 0] =
           (if [x, y, z] \<in> {[5, 5, 5], [4, 5, 5], [6, 5, 5], [5, 4, 5], [5, 6, 5],
                             [5, 5, 4], [5, 5, 6]}
            then 255 else 0))"
  unfolding OpObjectCenterImage_execute_def
  by (simp add: example_roi_def upto.simps fill_def example_buffer_def example_center_op_def
      example_centers_def channel_body_def py_index_def table_size_def paint_center_def
      paint_offset_def contained_eval[unfolded example_roi_def] make_key_def
      setitem_def norm_index_def upt_rec Let_def)

subsection \<open>Determinism of execute\<close>

lemma same_outcome_Inl [simp]: "same_outcome (Inl e) (Inl e)"
  by (simp add: same_outcome_def)

lemma same_outcome_bind:
  "(\<And>x. same_outcome (f x) (g x)) \<Longrightarrow> same_outcome (bind_err m f) (bind_err m g)"
  by (cases m) simp_all

lemma prod_list_one: "prod_list (ns :: nat list) = 1 \<Longrightarrow> n \<in> set ns \<Longrightarrow> n = 1"
  by (induction ns) auto

lemma prod_list_int: "prod_list (map int ns) = int (prod_list ns)"
  by (induction ns) simp_all

lemma norm_key_unit:
  "norm_key ns key = Some k \<Longrightarrow> (\<And>n. n \<in> set ns \<Longrightarrow> n = 1) \<Longrightarrow> k = replicate (length key) 0"
proof (induction ns key arbitrary: k rule: norm_key.induct)
  case (1 ns)
  then show ?case by simp
next
  case (2 i "is")
  then show ?case by simp
next
  case (3 n ns i "is")
  from "3.prems"(2) have n: "n = 1" by simp
  from "3.prems"(1) obtain j ks where j: "norm_index n i = Some j"
    and ks: "norm_key ns is = Some ks" and k: "k = j # ks"
    by (auto split: option.splits)
  from j n have "j = 0" by (auto simp: norm_index_def split: if_splits)
  moreover have "ks = replicate (length is) 0"
    using "3.IH"[OF j ks] "3.prems"(2) by simp
  ultimately show ?case using k by simp
qed

lemma setitem_single_cell:
  assumes same: "shape resB = shape resA"
    and fits: "map int (shape resA) = map2 (-) sp st"
    and lens: "length st = length sp"
    and one: "prod_list (map2 (-) sp st) = 1"
  shows "same_outcome (setitem resA st acc) (setitem resB st acc)"
proof (cases "norm_key (shape resA) st")
  case None
  then show ?thesis using same by (simp add: setitem_def)
next
  case (Some k)
  have "int (prod_list (shape resA)) = 1"
    using one by (simp flip: fits add: prod_list_int)
  then have unit: "\<And>n. n \<in> set (shape resA) \<Longrightarrow> n = 1"
    using prod_list_one[of "shape resA"] by simp
  have len: "length (shape resA) = length st"
    using arg_cong[OF fits, of length] lens by simp
  have k: "k = replicate (length st) 0"
    using norm_key_unit[OF Some unit] .
  have "getitem (resA\<lparr>cell := \<lambda>p. if take (length k) p = k then acc else cell resA p\<rparr>) key =
        getitem (resB\<lparr>cell := \<lambda>p. if take (length k) p = k then acc else cell resB p\<rparr>) key" for key
  proof (cases "length key = length (shape resA) \<and> norm_key (shape resA) key \<noteq> None")
    case True
    then obtain k' where k': "norm_key (shape resA) key = Some k'" by auto
    have "k' = replicate (length key) 0"
      using norm_key_unit[OF k' unit] .
    with True len k have "k' = k" by simp
    then show ?thesis using True k' same by (simp add: getitem_def)
  next
    case False
    then show ?thesis using same by (auto simp: getitem_def)
  qed
  then show ?thesis
    using Some same by (simp add: setitem_def same_outcome_def array_equal_def)
qed

lemma fill_same_shape: "shape res2 = shape res1 \<Longrightarrow> fill res1 v = fill res2 v"
  by (cases res1; cases res2) (simp add: fill_def)

text \<open>
  Claim C8. \<^verbatim>\<open>execute\<close> returns no new operator, so a request leaves the operator as it
  was and later requests see the same inputs; its outcome is a function of the input slots,
  the region of interest and the result buffer it is handed. The buffer's previous content,
  which is all that earlier requests could leave behind, has no influence: for two
  buffers of the same shape \<^verbatim>\<open>OpObjectCenterImage.execute\<close> returns equal results, and for
  two buffers of the shape of the region of interest \<^verbatim>\<open>OpRegionFeatures3d.execute\<close>
  raises the same exception or returns arrays with the same data.
\<close>

theorem execute_deterministic:
  assumes image_buffers: "shape res2 = shape res1"
    and cell_buffers: "shape resB = shape resA"
      "map int (shape resA) = map2 (-) (stop roi3) (start roi3)"
  shows "OpObjectCenterImage_execute asarray_uint32 selfc slot subindex roi res1 =
           OpObjectCenterImage_execute asarray_uint32 selfc slot subindex roi res2 \<and>
         same_outcome
           (OpRegionFeatures3d_execute extractRegionFeatures self3 slot3 subindex3 roi3 resA)
           (OpRegionFeatures3d_execute extractRegionFeatures self3 slot3 subindex3 roi3 resB)"
proof
  show "OpObjectCenterImage_execute asarray_uint32 selfc slot subindex roi res1 =
        OpObjectCenterImage_execute asarray_uint32 selfc slot subindex roi res2"
    unfolding OpObjectCenterImage_execute_def fill_same_shape[OF image_buffers] ..
next
  show "same_outcome
     (OpRegionFeatures3d_execute extractRegionFeatures self3 slot3 subindex3 roi3 resA)
     (OpRegionFeatures3d_execute extractRegionFeatures self3 slot3 subindex3 roi3 resB)"
  proof (cases "length (start roi3) = length (stop roi3) \<and>
      length (stop roi3) = length (mshape (ometa (Output self3))) \<and> slot3 = SlotOutput")
    case False
    then show ?thesis by (auto simp: OpRegionFeatures3d_execute_def)
  next
    case True
    have store: "same_outcome (setitem resA (start roi3) acc) (setitem resB (start roi3) acc)"
      if "prod_list (map2 (-) (stop roi3) (start roi3)) = 1" for acc
      using setitem_single_cell[OF cell_buffers] True that by simp
    show ?thesis
      unfolding OpRegionFeatures3d_execute_def Let_def using True
      by (auto intro!: same_outcome_bind store)
  qed
qed

theorem execute_deterministic_witness:
  "cell (example_buffer [1, 20, 20, 20, 1]) [0, 5, 5, 5, 0] \<noteq>
     cell ((example_buffer [1, 20, 20, 20, 1])\<lparr>cell := (\<lambda>k. 9)\<rparr>) [0, 5, 5, 5, 0] \<and>
   OpObjectCenterImage_execute (\<lambda>v. v) example_center_op SlotOutput [] example_roi
       (example_buffer [1, 20, 20, 20, 1]) =
     OpObjectCenterImage_execute (\<lambda>v. v) example_center_op SlotOutput [] example_roi
       ((example_buffer [1, 20, 20, 20, 1])\<lparr>cell := (\<lambda>k. 9)\<rparr>) \<and>
   same_outcome
     (OpRegionFeatures3d_execute example_extract example_op3d_ready SlotOutput []
        \<lparr>start = [0, 0], stop = [1, 1]\<rparr> example_cell)
     (OpRegionFeatures3d_execute example_extract example_op3d_ready SlotOutput []
        \<lparr>start = [0, 0], stop = [1, 1]\<rparr> (example_cell\<lparr>cell := (\<lambda>k. ([9], 9))\<rparr>))"
proof -
  have differ: "cell (example_buffer [1, 20, 20, 20, 1]) [0, 5, 5, 5, 0] \<noteq>
     cell ((example_buffer [1, 20, 20, 20, 1])\<lparr>cell := (\<lambda>k. 9)\<rparr>) [0, 5, 5, 5, 0]"
    by (simp add: example_buffer_def)
  have a: "shape ((example_buffer [1, 20, 20, 20, 1])\<lparr>cell := (\<lambda>k. 9)\<rparr>) =
      shape (example_buffer [1, 20, 20, 20, 1])"
    by simp
  have b: "shape (example_cell\<lparr>cell := (\<lambda>k. ([9], 9))\<rparr>) = shape example_cell"
    by simp
  have c: "map int (shape example_cell) =
      map2 (-) (stop \<lparr>start = [0, 0], stop = [1, 1]\<rparr>) (start \<lparr>start = [0, 0], stop = [1, 1]\<rparr>)"
    by (simp add: example_cell_def)
  note det = execute_deterministic[where ?res1.0 = "example_buffer [1, 20, 20, 20, 1]"
      and ?res2.0 = "(example_buffer [1, 20, 20, 20, 1])\<lparr>cell := (\<lambda>k. 9)\<rparr>"
      and resA = example_cell and resB = "example_cell\<lparr>cell := (\<lambda>k. ([9], 9))\<rparr>"
      and ?roi3.0 = "\<lparr>start = [0, 0], stop = [1, 1]\<rparr>" and roi = example_roi
      and ?asarray_uint32.0 = "\<lambda>v. v" and selfc = example_center_op and slot = SlotOutput
      and subindex = "[]" and extractRegionFeatures = example_extract
      and ?self3.0 = example_op3d_ready and ?slot3.0 = SlotOutput and ?subindex3.0 = "[]",
      OF a b c]
  show ?thesis
    by (intro conjI differ det[THEN conjunct1] det[THEN conjunct2])
qed

end
